theory Spec2Isabelle
  imports Main "HOL-Library.Sublist" "HOL-Library.AList"
begin

section \<open>latex2pdfa: the process runner, the patch engine and the pipeline\<close>

text \<open>
  A shallow embedding of \<^verbatim>\<open>latex2pdfa.py\<close> and \<^verbatim>\<open>utils.py\<close>.
  What a process writes and what a file holds is a sequence of bytes; the text that Python
  decodes from it is a sequence of code points. Path names, command lines and the strings
  of the configuration are HOL strings. Exceptions are values of the type \<open>error\<close>.
\<close>

subsection \<open>Bytes and text\<close>

type_synonym bytes = string

type_synonym unicode = "nat list"

text \<open>The text of a string literal of the program.\<close>

definition text_of :: "string \<Rightarrow> unicode" where
  "text_of s = map of_char s"

text \<open>A continuation byte of UTF-8.\<close>

definition cont :: "nat \<Rightarrow> bool" where
  "cont b = (128 \<le> b \<and> b \<le> 191)"

text \<open>
  The strict UTF-8 decoder on the values of the bytes: sequences of one to four bytes, no
  overlong form, no surrogate, nothing above U+10FFFF. \<open>None\<close> is UnicodeDecodeError.
\<close>

fun utf8_decode :: "nat list \<Rightarrow> unicode option" where
  "utf8_decode [] = Some []"
| "utf8_decode (b0 # bs) =
     (if b0 < 128 then map_option ((#) b0) (utf8_decode bs)
      else if 194 \<le> b0 \<and> b0 \<le> 223 then
        (case bs of
           b1 # r \<Rightarrow>
             if cont b1
             then map_option ((#) ((b0 - 192) * 64 + (b1 - 128))) (utf8_decode r)
             else None
         | _ \<Rightarrow> None)
      else if 224 \<le> b0 \<and> b0 \<le> 239 then
        (case bs of
           b1 # b2 # r \<Rightarrow>
             if cont b1 \<and> cont b2
                \<and> (if b0 = 224 then 160 \<le> b1 else True)
                \<and> (if b0 = 237 then b1 \<le> 159 else True)
             then map_option ((#) ((b0 - 224) * 4096 + (b1 - 128) * 64 + (b2 - 128)))
                    (utf8_decode r)
             else None
         | _ \<Rightarrow> None)
      else if 240 \<le> b0 \<and> b0 \<le> 244 then
        (case bs of
           b1 # b2 # b3 # r \<Rightarrow>
             if cont b1 \<and> cont b2 \<and> cont b3
                \<and> (if b0 = 240 then 144 \<le> b1 else True)
                \<and> (if b0 = 244 then b1 \<le> 143 else True)
             then map_option
                    ((#) ((b0 - 240) * 262144 + (b1 - 128) * 4096 + (b2 - 128) * 64
                          + (b3 - 128)))
                    (utf8_decode r)
             else None
         | _ \<Rightarrow> None)
      else None)"

text \<open>\<^verbatim>\<open>b.decode('utf-8')\<close>.\<close>

definition decode_utf8 :: "bytes \<Rightarrow> unicode option" where
  "decode_utf8 b = utf8_decode (map of_char b)"

text \<open>
  The UTF-8 encoding of one code point; a surrogate and a value above U+10FFFF have none
  (UnicodeEncodeError).
\<close>

definition utf8_encode1 :: "nat \<Rightarrow> nat list option" where
  "utf8_encode1 c =
     (if c < 128 then Some [c]
      else if c < 2048 then Some [192 + c div 64, 128 + c mod 64]
      else if 55296 \<le> c \<and> c \<le> 57343 then None
      else if c < 65536 then Some [224 + c div 4096, 128 + c div 64 mod 64, 128 + c mod 64]
      else if c < 1114112 then
        Some [240 + c div 262144, 128 + c div 4096 mod 64, 128 + c div 64 mod 64,
              128 + c mod 64]
      else None)"

text \<open>\<^verbatim>\<open>s.encode('utf-8')\<close>.\<close>

fun encode_utf8 :: "unicode \<Rightarrow> bytes option" where
  "encode_utf8 [] = Some []"
| "encode_utf8 (c # cs) =
     (case utf8_encode1 c of
        None \<Rightarrow> None
      | Some bs \<Rightarrow> map_option ((@) (map char_of bs)) (encode_utf8 cs))"

subsection \<open>Exceptions\<close>

text \<open>
  The attribute \<^verbatim>\<open>stderr\<close> of a CalledProcessError holds the bytes that were captured,
  or the text of a message.
\<close>

datatype captured = Text unicode | Bytes bytes

datatype error =
    CalledProcessError int string "captured option"
      \<comment> \<open>returncode, cmd, stderr\<close>
  | AssertionError
  | SystemExit int
  | TypeError
  | AttributeError
  | EOFError
  | UnicodeDecodeError
  | UnicodeEncodeError
  | FileNotFoundError
  | FileExistsError
  | PermissionError
  | IsADirectoryError
  | NotADirectoryError
  | ShutilError
  | ParseError

text \<open>The exceptions that \<^verbatim>\<open>except IOError\<close> catches: OSError and its subclasses.\<close>

fun is_OSError :: "error \<Rightarrow> bool" where
  "is_OSError FileNotFoundError = True"
| "is_OSError FileExistsError = True"
| "is_OSError PermissionError = True"
| "is_OSError IsADirectoryError = True"
| "is_OSError NotADirectoryError = True"
| "is_OSError ShutilError = True"
| "is_OSError _ = False"

subsection \<open>Helpers on sequences\<close>

text \<open>\<^verbatim>\<open>pat in s\<close> on Python strings.\<close>

fun is_in :: "'a list \<Rightarrow> 'a list \<Rightarrow> bool" where
  "is_in pat [] = (pat = [])"
| "is_in pat (c # cs) = (prefix pat (c # cs) \<or> is_in pat cs)"

text \<open>The rest of \<open>s\<close> after the literal \<open>pat\<close>, when \<open>s\<close> starts with it.\<close>

fun strip_prefix :: "'a list \<Rightarrow> 'a list \<Rightarrow> 'a list option" where
  "strip_prefix [] s = Some s"
| "strip_prefix (p # ps) [] = None"
| "strip_prefix (p # ps) (c # cs) = (if p = c then strip_prefix ps cs else None)"

text \<open>The code point of the line feed.\<close>

definition newline :: nat where
  "newline = 10"

text \<open>
  \<^verbatim>\<open>\s\<close> of a Python \<^verbatim>\<open>str\<close> pattern: the code points for which
  \<^verbatim>\<open>str.isspace\<close> holds.
\<close>

definition is_space :: "nat \<Rightarrow> bool" where
  "is_space n =
     ((9 \<le> n \<and> n \<le> 13) \<or> (28 \<le> n \<and> n \<le> 32) \<or> n = 133 \<or> n = 160 \<or> n = 5760
      \<or> (8192 \<le> n \<and> n \<le> 8202) \<or> n = 8232 \<or> n = 8233 \<or> n = 8239 \<or> n = 8287
      \<or> n = 12288)"

subsection \<open>utils.py: run and run\_process\<close>

text \<open>What a child process does: its exit status and what it writes to its two streams.\<close>

record child =
  exit_status :: int
  out :: bytes
  err :: bytes

text \<open>
  \<^verbatim>\<open>subprocess.CompletedProcess\<close>: a stream that was not captured is \<open>None\<close>.
\<close>

record completed_process =
  args :: string
  returncode :: int
  stdout :: "bytes option"
  stderr :: "bytes option"

text \<open>
  \<^verbatim>\<open>run(cmd, capture_output, capture_error, check)\<close> with no input and no timeout, as
  \<^verbatim>\<open>run_process\<close> calls it.
\<close>

definition run :: "string \<Rightarrow> bool \<Rightarrow> bool \<Rightarrow> bool \<Rightarrow> child \<Rightarrow> error + completed_process" where
  "run cmd capture_output capture_error check p =
     (let so = (if capture_output then Some (out p) else None);
          se = (if capture_error then Some (err p) else None);
          retcode = exit_status p
      in if check \<and> retcode \<noteq> 0
         then Inl (CalledProcessError retcode cmd (map_option Bytes se))
         else Inr \<lparr>args = cmd, returncode = retcode, stdout = so, stderr = se\<rparr>)"

text \<open>The character class \<^verbatim>\<open>[\S\n ]\<close>.\<close>

definition fatal_class :: "nat \<Rightarrow> bool" where
  "fatal_class c = (\<not> is_space c \<or> c = newline \<or> c = 32)"

text \<open>
  A match of \<^verbatim>\<open>Fatal error[\S\n ]+\<close> that starts at the head of the text: the
  literal, then the longest non-empty run of the class.
\<close>

definition fatal_match :: "unicode \<Rightarrow> unicode option" where
  "fatal_match s =
     (case strip_prefix (text_of ''Fatal error'') s of
        None \<Rightarrow> None
      | Some rest \<Rightarrow>
          (let run = takeWhile fatal_class rest
           in if run = [] then None else Some (text_of ''Fatal error'' @ run)))"

text \<open>\<^verbatim>\<open>re.search(r'Fatal error[\S\n ]+', s)\<close>: the leftmost match, as \<^verbatim>\<open>match.group()\<close>.\<close>

fun fatal_search :: "unicode \<Rightarrow> unicode option" where
  "fatal_search [] = None"
| "fatal_search (c # cs) =
     (case fatal_match (c # cs) of Some m \<Rightarrow> Some m | None \<Rightarrow> fatal_search cs)"

text \<open>What \<^verbatim>\<open>run_process\<close> returns: the decoded output, or the completed process.\<close>

datatype run_result = Output unicode | Completed completed_process

text \<open>
  \<^verbatim>\<open>run_process(cmd, cwd, verbose, ignore_errors)\<close>, given what the child does. In
  captured mode a non-empty stdout is decoded as UTF-8 before it is searched.
\<close>

definition run_process :: "string \<Rightarrow> bool \<Rightarrow> bool \<Rightarrow> child \<Rightarrow> error + run_result" where
  "run_process cmd verbose ignore_errors p =
     (if verbose then
        (case run cmd False False (\<not> ignore_errors) p of
           Inl e \<Rightarrow> Inl e
         | Inr result \<Rightarrow> Inr (Completed result))
      else
        (case run cmd True True False p of
           Inl e \<Rightarrow> Inl e
         | Inr result \<Rightarrow>
             (case stdout result of
                Some so \<Rightarrow>
                  if so \<noteq> [] then
                    (case decode_utf8 so of
                       None \<Rightarrow> Inl UnicodeDecodeError
                     | Some decoded \<Rightarrow>
                         (case fatal_search decoded of
                            Some m \<Rightarrow>
                              Inl (CalledProcessError (returncode result) (args result)
                                     (Some (Text (text_of ''pdflatex compilation error: '' @ m))))
                          | None \<Rightarrow> Inr (Output decoded)))
                  else
                    (case stderr result of
                       Some se \<Rightarrow>
                         if se \<noteq> [] \<and> \<not> ignore_errors then
                           Inl (CalledProcessError (returncode result) (args result)
                                  (Some (Bytes se)))
                         else Inr (Completed result)
                     | None \<Rightarrow> Inr (Completed result))
              | None \<Rightarrow> Inr (Completed result))))"

subsection \<open>pathlib\<close>

text \<open>
  A \<^verbatim>\<open>pathlib.Path\<close>, as pathlib holds it: the root (empty for a relative path) and the
  names below it.
\<close>

record path =
  anchor :: string
  names :: "string list"

text \<open>\<^verbatim>\<open>s.split('/')\<close>.\<close>

fun split_slash :: "string \<Rightarrow> string list" where
  "split_slash [] = [[]]"
| "split_slash (c # cs) =
     (if c = CHR ''/'' then [] # split_slash cs
      else (case split_slash cs of [] \<Rightarrow> [[c]] | x # xs \<Rightarrow> (c # x) # xs))"

text \<open>
  \<^verbatim>\<open>Path(s)\<close>: empty names and \<^verbatim>\<open>.\<close> are dropped, \<^verbatim>\<open>..\<close> is kept; exactly two
  leading slashes are a root of their own.
\<close>

definition Path :: "string \<Rightarrow> path" where
  "Path s =
     \<lparr>anchor = (if prefix ''//'' s \<and> \<not> prefix ''///'' s then ''//''
                else if prefix ''/'' s then ''/'' else []),
      names = filter (\<lambda>c. c \<noteq> [] \<and> c \<noteq> ''.'') (split_slash s)\<rparr>"

text \<open>\<^verbatim>\<open>'/'.join(xs)\<close>.\<close>

fun join_slash :: "string list \<Rightarrow> string" where
  "join_slash [] = []"
| "join_slash [s] = s"
| "join_slash (s # t # ss) = s @ ''/'' @ join_slash (t # ss)"

text \<open>\<^verbatim>\<open>str(p)\<close>.\<close>

definition path_str :: "path \<Rightarrow> string" where
  "path_str p = (if anchor p = [] \<and> names p = [] then ''.'' else anchor p @ join_slash (names p))"

text \<open>\<^verbatim>\<open>p.name\<close> and \<^verbatim>\<open>p.parent\<close>.\<close>

definition name_of :: "path \<Rightarrow> string" where
  "name_of p = (if names p = [] then [] else last (names p))"

definition parent_of :: "path \<Rightarrow> path" where
  "parent_of p = p\<lparr>names := butlast (names p)\<rparr>"

text \<open>\<^verbatim>\<open>p / q\<close>: an absolute right operand replaces the left one.\<close>

definition joinpath :: "path \<Rightarrow> path \<Rightarrow> path" where
  "joinpath p q = (if anchor q \<noteq> [] then q else p\<lparr>names := names p @ names q\<rparr>)"

text \<open>\<^verbatim>\<open>s.rfind(c)\<close>: the last index of the character, if there is one.\<close>

fun rfind :: "char \<Rightarrow> string \<Rightarrow> nat option" where
  "rfind c [] = None"
| "rfind c (x # xs) =
     (case rfind c xs of
        Some i \<Rightarrow> Some (Suc i)
      | None \<Rightarrow> if x = c then Some 0 else None)"

text \<open>\<^verbatim>\<open>Path.suffix\<close> and \<^verbatim>\<open>Path.stem\<close>, computed from the name.\<close>

definition suffix_of :: "string \<Rightarrow> string" where
  "suffix_of nm =
     (case rfind (CHR ''.'') nm of
        None \<Rightarrow> []
      | Some i \<Rightarrow> if 0 < i \<and> i < length nm - 1 then drop i nm else [])"

definition stem_of :: "string \<Rightarrow> string" where
  "stem_of nm =
     (case rfind (CHR ''.'') nm of
        None \<Rightarrow> nm
      | Some i \<Rightarrow> if 0 < i \<and> i < length nm - 1 then take i nm else nm)"

subsection \<open>The configuration object, the messages and the world\<close>

text \<open>An executable is held either as a \<^verbatim>\<open>Path\<close> object or as a plain \<^verbatim>\<open>str\<close>.\<close>

datatype exe = PathExe path | StrExe string

text \<open>The attributes of a \<^verbatim>\<open>Latex2pdfa\<close> object.\<close>

record latex2pdfa =
  main_tex_file :: path
  conformance_level :: string
  conformance_level_version :: int
  verbose :: bool
  ignore_metadata :: bool
  verify :: bool
  clean :: bool
  pdflatex_extra_cmds :: "string option"
  output_dir :: path
  output_filename :: string
  compiled_pdf_filename :: string
  pdflatex_cmd :: exe
  bibtex_cmd :: exe
  gs_cmd :: exe
  exiftool_cmd :: exe
  qpdf_cmd :: exe
  verapdf_cmd :: "exe option"

text \<open>
  What the program logs, by kind and data (the Rich markup of the message text is left out).
\<close>

datatype message =
    AlreadyPatched
  | PatchedSuccessfully
  | CompiledSuccessfully
  | NewPdfGenerated
  | MetadataFixed
  | PdfLinearized
  | TemporaryFilesRemoved
  | CleaningFailed error
  | VerificationResults "string option" "string option" "string option" "string option" bool
      \<comment> \<open>profile name, passed checks, failed checks, statement, compliant\<close>
  | TexFileOk
  | RequirementsOk
  | NotAFile
  | ExecutableMissing string
  | XmpdataExists
  | MetadataAdded
  | AskOpenEditor
  | PressEnter
  | CannotCopyMetadata
  | NoVeraPDFPath
  | RunningCommand string
  | Notes

text \<open>
  The world the program acts on. The file tree maps the names from the root down to a node,
  a regular file with its bytes or a directory, in the order in which a directory lists
  them. The trace is what the program has done so far that can be seen from outside, in
  order: the messages it has logged, the command lines it has handed to the shell, and the
  files it has opened in the editor.
\<close>

datatype node = File bytes | Dir

datatype event = Log message | Spawn string | OpenFile path

record world =
  nodes :: "(string list \<times> node) list"
  trace :: "event list"

definition info :: "message \<Rightarrow> world \<Rightarrow> world" where
  "info msg w = w\<lparr>trace := trace w @ [Log msg]\<rparr>"

subsection \<open>The machine\<close>

datatype element = Element (tag: string) (attrib: "(string \<times> string) list") (children: "element list")

text \<open>
  What the program cannot decide: what a command does when the shell runs it in a working
  directory (its exit status and streams, and the file tree it leaves), which files the
  system refuses to remove, which commands are on the search path, what the user answers
  (\<open>None\<close> is the end of the input) and edits, whether the desktop opens a file (or
  raises an OSError), how the XML parser reads a text, where the package is installed, the
  working directory of the program, and how text files are decoded and encoded: the codec
  of the locale, applied to each chunk that is written, and the line separator.
\<close>

record machine =
  spawn :: "string \<Rightarrow> path \<Rightarrow> world \<Rightarrow> child \<times> (string list \<times> node) list"
  denied :: "string list \<Rightarrow> bool"
  which :: "string \<Rightarrow> bool"
  confirm_modify :: "bool option"
  confirm_open :: "bool option"
  press_enter :: bool
  user_edits :: "(string list \<times> node) list \<Rightarrow> (string list \<times> node) list"
  open_file :: "path \<Rightarrow> error option"
  fromstring :: "unicode \<Rightarrow> error + element"
  resources :: path
  binaries :: path
  cwd :: path
  locale_decode :: "bytes \<Rightarrow> unicode option"
  locale_encode :: "unicode \<Rightarrow> bytes option"
  linesep :: unicode

subsection \<open>The file system\<close>

text \<open>\<^verbatim>\<open>p.absolute()\<close>: a relative path is taken below the working directory.\<close>

definition absolute :: "machine \<Rightarrow> path \<Rightarrow> path" where
  "absolute m p = (if anchor p \<noteq> [] then p else joinpath (cwd m) p)"

text \<open>
  How the system follows a path: from the root it enters one name after the other. It can
  leave a node only if that is a directory; \<^verbatim>\<open>..\<close> leads to the directory above. The
  result is the place the path names, whether or not something is there.
\<close>

definition enter :: "string list \<Rightarrow> string \<Rightarrow> string list" where
  "enter cur c = (if c = ''..'' then butlast cur else if c = [] \<or> c = ''.'' then cur else cur @ [c])"

fun walk :: "(string list \<times> node) list \<Rightarrow> string list \<Rightarrow> string list \<Rightarrow> error + string list" where
  "walk fs cur [] = Inr cur"
| "walk fs cur (c # cs) =
     (case map_of fs cur of
        Some Dir \<Rightarrow> walk fs (enter cur c) cs
      | Some (File b) \<Rightarrow> Inl NotADirectoryError
      | None \<Rightarrow> Inl FileNotFoundError)"

definition resolve :: "machine \<Rightarrow> world \<Rightarrow> path \<Rightarrow> error + string list" where
  "resolve m w p = walk (nodes w) [] (names (absolute m p))"

text \<open>What is at a path, if anything (\<^verbatim>\<open>os.stat\<close>).\<close>

definition stat :: "machine \<Rightarrow> world \<Rightarrow> path \<Rightarrow> node option" where
  "stat m w p = (case resolve m w p of Inl e \<Rightarrow> None | Inr k \<Rightarrow> map_of (nodes w) k)"

definition is_file :: "machine \<Rightarrow> world \<Rightarrow> path \<Rightarrow> bool" where
  "is_file m w p = (case stat m w p of Some (File b) \<Rightarrow> True | _ \<Rightarrow> False)"

definition is_dir :: "machine \<Rightarrow> world \<Rightarrow> path \<Rightarrow> bool" where
  "is_dir m w p = (stat m w p = Some Dir)"

definition exists :: "machine \<Rightarrow> world \<Rightarrow> path \<Rightarrow> bool" where
  "exists m w p = (stat m w p \<noteq> None)"

text \<open>Opening a file for reading: the place of the file and its bytes.\<close>

definition open_read :: "machine \<Rightarrow> world \<Rightarrow> path \<Rightarrow> error + string list \<times> bytes" where
  "open_read m w p =
     (case resolve m w p of
        Inl e \<Rightarrow> Inl e
      | Inr k \<Rightarrow>
          (case map_of (nodes w) k of
             None \<Rightarrow> Inl FileNotFoundError
           | Some Dir \<Rightarrow> Inl IsADirectoryError
           | Some (File b) \<Rightarrow> Inr (k, b)))"

text \<open>
  Opening a file for writing (mode \<^verbatim>\<open>w\<close>): the file is made, or emptied; the result is
  its place.
\<close>

definition open_write :: "machine \<Rightarrow> world \<Rightarrow> path \<Rightarrow> error + string list \<times> world" where
  "open_write m w p =
     (case resolve m w p of
        Inl e \<Rightarrow> Inl e
      | Inr k \<Rightarrow>
          (case map_of (nodes w) k of
             Some Dir \<Rightarrow> Inl IsADirectoryError
           | _ \<Rightarrow> Inr (k, w\<lparr>nodes := AList.update k (File []) (nodes w)\<rparr>)))"

text \<open>\<^verbatim>\<open>os.remove\<close>: the exception, if any, and the world afterwards.\<close>

definition os_remove :: "machine \<Rightarrow> path \<Rightarrow> world \<Rightarrow> error option \<times> world" where
  "os_remove m p w =
     (case resolve m w p of
        Inl e \<Rightarrow> (Some e, w)
      | Inr k \<Rightarrow>
          (case map_of (nodes w) k of
             None \<Rightarrow> (Some FileNotFoundError, w)
           | Some Dir \<Rightarrow> (Some IsADirectoryError, w)
           | Some (File b) \<Rightarrow>
               if denied m k then (Some PermissionError, w)
               else (None, w\<lparr>nodes := AList.delete k (nodes w)\<rparr>)))"

text \<open>\<^verbatim>\<open>os.listdir\<close>: the names in a directory, in the order of the file tree.\<close>

definition listdir :: "machine \<Rightarrow> world \<Rightarrow> path \<Rightarrow> error + string list" where
  "listdir m w p =
     (case resolve m w p of
        Inl e \<Rightarrow> Inl e
      | Inr k \<Rightarrow>
          (case map_of (nodes w) k of
             None \<Rightarrow> Inl FileNotFoundError
           | Some (File b) \<Rightarrow> Inl NotADirectoryError
           | Some Dir \<Rightarrow>
               Inr (map last (filter (\<lambda>k'. k' \<noteq> [] \<and> butlast k' = k) (map fst (nodes w))))))"

text \<open>\<^verbatim>\<open>os.mkdir\<close>.\<close>

definition os_mkdir :: "machine \<Rightarrow> path \<Rightarrow> world \<Rightarrow> error option \<times> world" where
  "os_mkdir m p w =
     (case resolve m w p of
        Inl e \<Rightarrow> (Some e, w)
      | Inr k \<Rightarrow>
          if map_of (nodes w) k \<noteq> None then (Some FileExistsError, w)
          else (None, w\<lparr>nodes := AList.update k Dir (nodes w)\<rparr>))"

text \<open>
  \<^verbatim>\<open>os.makedirs(p, exist_ok=True)\<close>: when the path above does not exist it is made
  first; then the directory is made, and an OSError of that step is dropped if the
  directory is there.
\<close>

function makedirs :: "machine \<Rightarrow> path \<Rightarrow> world \<Rightarrow> error option \<times> world" where
  "makedirs m p w =
     (case (if names p \<noteq> [] \<and> \<not> exists m w (parent_of p)
            then (case makedirs m (parent_of p) w of
                    (Some FileExistsError, w') \<Rightarrow> (None, w')
                  | r \<Rightarrow> r)
            else (None, w)) of
        (Some e, w1) \<Rightarrow> (Some e, w1)
      | (None, w1) \<Rightarrow>
          (case os_mkdir m p w1 of
             (None, w2) \<Rightarrow> (None, w2)
           | (Some e, w2) \<Rightarrow> if is_dir m w2 p then (None, w2) else (Some e, w2)))"
  by pat_completeness auto
termination
  by (relation "measure (\<lambda>(m, p, w). length (names p))") (auto simp: parent_of_def)

text \<open>
  \<^verbatim>\<open>shutil.move\<close> of the regular file at the place \<open>k\<close> with the bytes \<open>b\<close>, named
  by \<open>src\<close>: into the destination when that is a directory (unless the name is taken
  there), and else onto the destination, which a rename replaces.
\<close>

definition move :: "machine \<Rightarrow> world \<Rightarrow> string list \<Rightarrow> bytes \<Rightarrow> path \<Rightarrow> path \<Rightarrow> error + world" where
  "move m w k b src dst =
     (let real_dst = (if is_dir m w dst then dst\<lparr>names := names dst @ [name_of src]\<rparr> else dst)
      in if is_dir m w dst \<and> exists m w real_dst then Inl ShutilError
         else
           (case resolve m w real_dst of
              Inl e \<Rightarrow> Inl e
            | Inr kd \<Rightarrow>
                (case map_of (nodes w) kd of
                   Some Dir \<Rightarrow> Inl IsADirectoryError
                 | _ \<Rightarrow>
                     Inr (w\<lparr>nodes := AList.update kd (File b) (AList.delete k (nodes w))\<rparr>))))"

text \<open>
  \<^verbatim>\<open>shutil.copy\<close>: into the destination when that is a directory; SameFileError (a
  \<^verbatim>\<open>shutil.Error\<close>) when both name one file.
\<close>

definition copy :: "machine \<Rightarrow> path \<Rightarrow> path \<Rightarrow> world \<Rightarrow> error option \<times> world" where
  "copy m src dst w =
     (let real_dst = (if is_dir m w dst then dst\<lparr>names := names dst @ [name_of src]\<rparr> else dst)
      in if exists m w src \<and> resolve m w src = resolve m w real_dst then (Some ShutilError, w)
         else
           (case open_read m w src of
              Inl e \<Rightarrow> (Some e, w)
            | Inr (ks, b) \<Rightarrow>
                (case open_write m w real_dst of
                   Inl e \<Rightarrow> (Some e, w)
                 | Inr (kd, w1) \<Rightarrow> (None, w1\<lparr>nodes := AList.update kd (File b) (nodes w1)\<rparr>))))"

subsection \<open>Text files\<close>

text \<open>
  Reading in text mode: the bytes are decoded with the codec of the locale, and the line
  ends \<^verbatim>\<open>\r\n\<close> and \<^verbatim>\<open>\r\<close> become \<^verbatim>\<open>\n\<close>.
\<close>

fun universal_newlines :: "unicode \<Rightarrow> unicode" where
  "universal_newlines [] = []"
| "universal_newlines [c] = [if c = 13 then newline else c]"
| "universal_newlines (c # d # cs) =
     (if c = 13 \<and> d = newline then newline # universal_newlines cs
      else if c = 13 then newline # universal_newlines (d # cs)
      else c # universal_newlines (d # cs))"

definition read_text :: "machine \<Rightarrow> world \<Rightarrow> path \<Rightarrow> error + unicode" where
  "read_text m w p =
     (case open_read m w p of
        Inl e \<Rightarrow> Inl e
      | Inr (k, b) \<Rightarrow>
          (case locale_decode m b of
             None \<Rightarrow> Inl UnicodeDecodeError
           | Some decoded \<Rightarrow> Inr (universal_newlines decoded)))"

text \<open>
  Writing in text mode: each \<^verbatim>\<open>\n\<close> of the chunk becomes the line separator, and the
  chunk is encoded with the codec of the locale.
\<close>

definition encode_chunk :: "machine \<Rightarrow> unicode \<Rightarrow> bytes option" where
  "encode_chunk m s = locale_encode m (concat (map (\<lambda>c. if c = newline then linesep m else [c]) s))"

text \<open>
  The calls of \<^verbatim>\<open>write\<close> on an open file, one chunk each: the bytes in the file
  afterwards, and the exception that ended the writing, if any.
\<close>

fun write_chunks :: "machine \<Rightarrow> unicode list \<Rightarrow> bytes \<Rightarrow> error option \<times> bytes" where
  "write_chunks m [] file = (None, file)"
| "write_chunks m (s # ss) file =
     (case encode_chunk m s of
        None \<Rightarrow> (Some UnicodeEncodeError, file)
      | Some b \<Rightarrow> write_chunks m ss (file @ b))"

text \<open>\<^verbatim>\<open>readlines()\<close>: the lines of a text, each with its newline.\<close>

fun readlines :: "unicode \<Rightarrow> unicode list" where
  "readlines [] = []"
| "readlines (c # cs) =
     (if c = newline then [c] # readlines cs
      else (case readlines cs of [] \<Rightarrow> [[c]] | l # ls \<Rightarrow> (c # l) # ls))"

subsection \<open>latex2pdfa.py: the markers and the directives\<close>

definition script_name :: string where
  "script_name = ''latex2pdfa''"

definition comment_start :: string where
  "comment_start = replicate 30 (CHR ''%'') @ script_name @ replicate 30 (CHR ''%'') @ [CHR 0x0A]"

definition comment_end :: string where
  "comment_end = replicate (length comment_start) (CHR ''%'') @ [CHR 0x0A]"

definition backslash :: char where
  "backslash = CHR 0x5C"

text \<open>\<^verbatim>\<open>str(n)\<close> of an integer, in decimal.\<close>

function str_nat :: "nat \<Rightarrow> string" where
  "str_nat n =
     (if n < 10 then [char_of (48 + n)]
      else str_nat (n div 10) @ [char_of (48 + n mod 10)])"
  by pat_completeness auto
termination
  by (relation "measure id") auto

declare str_nat.simps [simp del]

definition str_int :: "int \<Rightarrow> string" where
  "str_int i = (if i < 0 then CHR ''-'' # str_nat (nat (- i)) else str_nat (nat i))"

definition cmds_before_documentclass :: "string list" where
  "cmds_before_documentclass =
     [backslash # ''pdfobjcompresslevel=0'',
      backslash # ''pdfminorversion=7'',
      backslash # ''pdfinclusioncopyfonts=1'']"

definition preambule_cmds :: "latex2pdfa \<Rightarrow> string list" where
  "preambule_cmds self =
     [backslash # ''usepackage[a-'' @ str_int (conformance_level_version self)
        @ conformance_level self @ '']{pdfx}'']"

text \<open>\<^verbatim>\<open>self.preambule_cmds[0][1:]\<close>: the directive without its backslash.\<close>

definition pdfx_directive :: "latex2pdfa \<Rightarrow> string" where
  "pdfx_directive self = drop 1 (hd (preambule_cmds self))"

subsection \<open>latex2pdfa.py: patch\_latex\<close>

text \<open>
  \<^verbatim>\<open>.*{pdfx}\<close> at the head of the text, as the backtracking matcher runs it: the dot
  takes every character but the newline, the longest run first; the result is the text
  after the match.
\<close>

fun dot_star_pdfx :: "unicode \<Rightarrow> unicode option" where
  "dot_star_pdfx [] = None"
| "dot_star_pdfx (c # cs) =
     (case (if c = newline then None else dot_star_pdfx cs) of
        Some r \<Rightarrow> Some r
      | None \<Rightarrow> strip_prefix (text_of ''{pdfx}'') (c # cs))"

text \<open>A match of \<^verbatim>\<open>usepackage.*{pdfx}\<close> at the head of the text: the text after it.\<close>

definition pdfx_match :: "unicode \<Rightarrow> unicode option" where
  "pdfx_match s =
     (case strip_prefix (text_of ''usepackage'') s of
        None \<Rightarrow> None
      | Some t \<Rightarrow> dot_star_pdfx t)"

text \<open>
  \<^verbatim>\<open>re.sub('usepackage.*{pdfx}', repl, text)\<close> for a replacement without
  backslashes: every leftmost match is replaced, and the scan goes on after it.
\<close>

function re_sub_pdfx :: "unicode \<Rightarrow> unicode \<Rightarrow> unicode" where
  "re_sub_pdfx repl [] = []"
| "re_sub_pdfx repl (c # cs) =
     (case pdfx_match (c # cs) of
        Some rest \<Rightarrow> repl @ re_sub_pdfx repl rest
      | None \<Rightarrow> c # re_sub_pdfx repl cs)"
  by pat_completeness auto
termination
proof (relation "measure (\<lambda>(repl, s). length s)")
  have sp: "length t \<le> length s" if "strip_prefix p s = Some t" for p s t :: unicode
    using that by (induction p s rule: strip_prefix.induct) (auto split: if_splits)
  have ds: "length r < length s" if "dot_star_pdfx s = Some r" for s r
    using that
  proof (induction s)
    case Nil
    then show ?case by simp
  next
    case (Cons c cs)
    show ?case
    proof (cases "(if c = newline then None else dot_star_pdfx cs)")
      case None
      with Cons.prems have "strip_prefix (text_of ''{pdfx}'') (c # cs) = Some r" by simp
      then show ?thesis by (auto simp: text_of_def split: if_splits dest!: sp)
    next
      case (Some r')
      with Cons.prems have "dot_star_pdfx cs = Some r" by (auto split: if_splits)
      with Cons.IH show ?thesis by fastforce
    qed
  qed
  show "wf (measure (\<lambda>(repl, s). length s))" by simp
  show "((repl, rest), repl, c # cs) \<in> measure (\<lambda>(repl, s). length s)"
    if "pdfx_match (c # cs) = Some rest" for repl c cs rest
  proof -
    from that obtain t where t: "strip_prefix (text_of ''usepackage'') (c # cs) = Some t"
      and r: "dot_star_pdfx t = Some rest"
      by (auto simp: pdfx_match_def split: option.splits)
    from sp [OF t] ds [OF r] show ?thesis by simp
  qed
  show "((repl, cs), repl, c # cs) \<in> measure (\<lambda>(repl, s). length s)" for repl c cs
    by simp
qed

text \<open>
  The chunks that are written for a marker block: the start marker, each command on a
  line, the end marker.
\<close>

definition write_block :: "string list \<Rightarrow> unicode list" where
  "write_block cmds =
     [text_of comment_start] @ map (\<lambda>cmd. text_of (cmd @ [CHR 0x0A])) cmds @ [text_of comment_end]"

text \<open>The chunks that the loop over the lines of the backup writes.\<close>

fun write_lines :: "latex2pdfa \<Rightarrow> unicode list \<Rightarrow> unicode list" where
  "write_lines self [] = []"
| "write_lines self (line # lines) =
     [line]
     @ (if is_in (text_of ''documentclass'') line then write_block (preambule_cmds self) else [])
     @ write_lines self lines"

text \<open>
  The path \<^verbatim>\<open>str(p.absolute()) + ".backup"\<close>: the suffix goes to the last name.
\<close>

definition backup_path :: "machine \<Rightarrow> path \<Rightarrow> path" where
  "backup_path m p =
     (let a = absolute m p
      in if names a = [] then a\<lparr>names := [''.backup'']\<rparr>
         else a\<lparr>names := butlast (names a) @ [last (names a) @ ''.backup'']\<rparr>)"

text \<open>
  The calls of \<^verbatim>\<open>write\<close> on the file that was opened at the place \<open>k\<close>, and its
  closing: the file holds what was written, also when an exception ended the writing.
\<close>

definition write_file :: "machine \<Rightarrow> string list \<Rightarrow> unicode list \<Rightarrow> world \<Rightarrow> (error + unit) \<times> world" where
  "write_file m k chunks w =
     (case write_chunks m chunks [] of
        (e, content) \<Rightarrow>
          ((case e of Some x \<Rightarrow> Inl x | None \<Rightarrow> Inr ()),
           w\<lparr>nodes := AList.update k (File content) (nodes w)\<rparr>))"

text \<open>
  The branch of \<^verbatim>\<open>patch_latex\<close> for a source with the marker: the source is read
  again, the directive is substituted, and the text is written back
  (\<^verbatim>\<open>read_text\<close>, \<^verbatim>\<open>re.sub\<close>, \<^verbatim>\<open>write_text\<close>).
\<close>

definition patch_marked :: "machine \<Rightarrow> latex2pdfa \<Rightarrow> world \<Rightarrow> (error + unit) \<times> world" where
  "patch_marked m self w =
     (case read_text m w (main_tex_file self) of
        Inl e \<Rightarrow> (Inl e, w)
      | Inr content \<Rightarrow>
          (case open_write m w (main_tex_file self) of
             Inl e \<Rightarrow> (Inl e, w)
           | Inr (k, w1) \<Rightarrow>
               write_file m k [re_sub_pdfx (text_of (pdfx_directive self)) content] w1))"

text \<open>
  The branch for a source without the marker, which was read at the place \<open>k\<close> with
  the bytes \<open>b\<close>: the source is moved to the backup, opened for writing, and the
  blocks and the lines of the backup are written to it.
\<close>

definition patch_fresh :: "machine \<Rightarrow> latex2pdfa \<Rightarrow> string list \<Rightarrow> bytes \<Rightarrow> world \<Rightarrow> (error + unit) \<times> world" where
  "patch_fresh m self k b w =
     (case move m w k b (absolute m (main_tex_file self)) (backup_path m (main_tex_file self)) of
        Inl e \<Rightarrow> (Inl e, w)
      | Inr w1 \<Rightarrow>
          (case open_write m w1 (main_tex_file self) of
             Inl e \<Rightarrow> (Inl e, w1)
           | Inr (k1, w2) \<Rightarrow>
               (case read_text m w2 (backup_path m (main_tex_file self)) of
                  Inl e \<Rightarrow> (Inl e, w2)
                | Inr orig \<Rightarrow>
                    (case write_file m k1
                            (write_block cmds_before_documentclass
                             @ write_lines self (readlines orig)) w2 of
                       (Inl e, w3) \<Rightarrow> (Inl e, w3)
                     | (Inr u, w3) \<Rightarrow> (Inr (), info PatchedSuccessfully w3)))))"

text \<open>
  The method \<^verbatim>\<open>patch_latex\<close>: the exception or the normal return, and the world that is
  left.
\<close>

definition patch_latex :: "machine \<Rightarrow> latex2pdfa \<Rightarrow> world \<Rightarrow> (error + unit) \<times> world" where
  "patch_latex m self w =
     (case open_read m w (main_tex_file self) of
        Inl e \<Rightarrow> (Inl e, w)
      | Inr (k, b) \<Rightarrow>
          (case locale_decode m b of
             None \<Rightarrow> (Inl UnicodeDecodeError, w)
           | Some decoded \<Rightarrow>
               if is_in (text_of script_name) (universal_newlines decoded)
               then patch_marked m self (info AlreadyPatched w)
               else patch_fresh m self k b w))"

subsection \<open>latex2pdfa.py: clean\_files\<close>

definition aux_files_ext :: "string list" where
  "aux_files_ext = [''.aux'', ''.bbl'', ''.blg'', ''.toc'', ''.out'', ''.log'']"

text \<open>
  The loop over the entries of the directory, which \<^verbatim>\<open>iterdir\<close> gives as the
  directory joined with each name that it lists: it ends at the first exception.
\<close>

fun remove_aux :: "machine \<Rightarrow> path \<Rightarrow> string list \<Rightarrow> world \<Rightarrow> error option \<times> world" where
  "remove_aux m directory [] w = (None, w)"
| "remove_aux m directory (n # rest) w =
     (let file = directory\<lparr>names := names directory @ [n]\<rparr>
      in if suffix_of (name_of file) \<in> set aux_files_ext then
           (case os_remove m (absolute m file) w of
              (Some e, w') \<Rightarrow> (Some e, w')
            | (None, w') \<Rightarrow> remove_aux m directory rest w')
         else remove_aux m directory rest w)"

definition clean_files :: "machine \<Rightarrow> latex2pdfa \<Rightarrow> world \<Rightarrow> world" where
  "clean_files m self w =
     (let directory = parent_of (main_tex_file self)
      in case listdir m w directory of
           Inl e \<Rightarrow> info (CleaningFailed e) w
         | Inr entries \<Rightarrow>
             (case remove_aux m directory entries w of
                (Some e, w1) \<Rightarrow> info (CleaningFailed e) w1
              | (None, w1) \<Rightarrow>
                  (let compiled_document = joinpath directory (Path (compiled_pdf_filename self))
                   in case os_remove m (absolute m compiled_document) w1 of
                        (Some e, w2) \<Rightarrow> info (CleaningFailed e) w2
                      | (None, w2) \<Rightarrow> info TemporaryFilesRemoved w2)))"

subsection \<open>latex2pdfa.py: the report of the validator\<close>

text \<open>
  \<^verbatim>\<open>elem.find('.//t')\<close>: the first element with the tag among the elements below
  \<open>elem\<close>, in document order. The function is given the children of \<open>elem\<close>.
\<close>

fun find_in :: "string \<Rightarrow> element list \<Rightarrow> element option" where
  "find_in t [] = None"
| "find_in t (Element tg at ch # es) =
     (if tg = t then Some (Element tg at ch)
      else (case find_in t ch of Some r \<Rightarrow> Some r | None \<Rightarrow> find_in t es))"

text \<open>
  The lines of \<^verbatim>\<open>verify_compliance\<close> after the report is parsed: the message that is
  logged and the value that is returned. \<^verbatim>\<open>None.get\<close> raises AttributeError.
\<close>

definition verify_report :: "element \<Rightarrow> error + message \<times> bool" where
  "verify_report root =
     (case find_in ''validationReport'' (children root) of
        None \<Rightarrow> Inl AttributeError
      | Some summary \<Rightarrow>
          (let isCompliant = map_of (attrib summary) ''isCompliant'';
               statement = map_of (attrib summary) ''statement'';
               profile_name = map_of (attrib summary) ''profileName''
           in case find_in ''details'' (children summary) of
                None \<Rightarrow> Inl AttributeError
              | Some details \<Rightarrow>
                  (let failedChecks = map_of (attrib details) ''failedChecks'';
                       passed_checks = map_of (attrib details) ''passedChecks''
                   in Inr (VerificationResults profile_name passed_checks failedChecks statement
                             (isCompliant = Some ''true''),
                           isCompliant = Some ''true''))))"


subsection \<open>latex2pdfa.py: the constructor\<close>

record arguments =
  arg_main_tex_file :: string
  arg_conformance_level :: string
  arg_conformance_level_version :: int
  arg_output_dir :: "string option"
  arg_output_filename :: "string option"
  arg_ignore_metadata :: bool
  arg_verbose :: bool
  arg_verify :: bool
  arg_pdflatex_path :: "string option"
  arg_pdflatex_extra_cmds :: "string option"
  arg_bibtex_path :: "string option"
  arg_gs_path :: "string option"
  arg_exiftool_path :: "string option"
  arg_qpdf_path :: "string option"
  arg_verapdf_path :: "string option"
  arg_clean :: bool

text \<open>
  \<^verbatim>\<open>if x: ... else: ...\<close> on an optional string: \<^verbatim>\<open>None\<close> and the empty string
  are false.
\<close>

fun if_given :: "string option \<Rightarrow> (string \<Rightarrow> 'a) \<Rightarrow> 'a \<Rightarrow> 'a" where
  "if_given None f d = d"
| "if_given (Some s) f d = (if s \<noteq> [] then f s else d)"

definition init :: "machine \<Rightarrow> arguments \<Rightarrow> world \<Rightarrow> (error + latex2pdfa) \<times> world" where
  "init m a w =
     (if arg_conformance_level a \<notin> set [''a'', ''b'', ''u''] then (Inl AssertionError, w)
      else if arg_conformance_level_version a \<notin> set [1, 2, 3] then (Inl AssertionError, w)
      else
        (let tex = Path (arg_main_tex_file a);
             out_dir = if_given (arg_output_dir a) Path (parent_of tex)
         in case makedirs m out_dir w of
              (Some e, w1) \<Rightarrow> (Inl e, w1)
            | (None, w1) \<Rightarrow>
                (let self =
                   \<lparr>main_tex_file = tex,
                    conformance_level = arg_conformance_level a,
                    conformance_level_version = arg_conformance_level_version a,
                    verbose = arg_verbose a,
                    ignore_metadata = arg_ignore_metadata a,
                    verify = arg_verify a,
                    clean = arg_clean a,
                    pdflatex_extra_cmds = arg_pdflatex_extra_cmds a,
                    output_dir = out_dir,
                    output_filename =
                      if_given (arg_output_filename a) id
                        (stem_of (name_of tex) @ ''-PDFA-''
                           @ str_int (arg_conformance_level_version a)
                           @ arg_conformance_level a @ ''.pdf''),
                    compiled_pdf_filename = stem_of (name_of tex) @ ''.pdf'',
                    pdflatex_cmd =
                      if_given (arg_pdflatex_path a) (\<lambda>s. PathExe (Path s)) (StrExe ''pdflatex''),
                    bibtex_cmd =
                      if_given (arg_bibtex_path a) (\<lambda>s. PathExe (Path s)) (StrExe ''bibtex''),
                    gs_cmd =
                      if_given (arg_gs_path a) StrExe
                        (PathExe (joinpath (joinpath (binaries m) (Path ''ghostscript''))
                                    (Path ''gs-923-linux-x86_64''))),
                    exiftool_cmd =
                      if_given (arg_exiftool_path a) StrExe (StrExe ''exiftool''),
                    qpdf_cmd =
                      if_given (arg_qpdf_path a) StrExe (StrExe ''qpdf''),
                    verapdf_cmd = None\<rparr>
                 in if arg_verify a then
                      (case arg_verapdf_path a of
                         Some v \<Rightarrow> (Inr (self\<lparr>verapdf_cmd := Some (StrExe v)\<rparr>), w1)
                       | None \<Rightarrow> (Inl (SystemExit 1), info NoVeraPDFPath w1))
                    else (Inr self, w1))))"

subsection \<open>latex2pdfa.py: the stages\<close>

text \<open>A stage: it ends with an exception or a value, and leaves a world.\<close>

type_synonym 'a stage = "world \<Rightarrow> (error + 'a) \<times> world"

definition and_then :: "'a stage \<Rightarrow> ('a \<Rightarrow> 'b stage) \<Rightarrow> 'b stage" where
  "and_then f g w = (case f w of (Inl e, w1) \<Rightarrow> (Inl e, w1) | (Inr x, w1) \<Rightarrow> g x w1)"

definition log_info :: "message \<Rightarrow> unit stage" where
  "log_info msg w = (Inr (), info msg w)"

text \<open>\<^verbatim>\<open>sys.exit(n)\<close> after a message.\<close>

definition exit_with :: "message \<Rightarrow> int \<Rightarrow> 'a stage" where
  "exit_with msg n w = (Inl (SystemExit n), info msg w)"

text \<open>
  \<^verbatim>\<open>run_process\<close> in the world. The working directory must be a directory, or no
  process is started; else the command line is handed to the shell, the child runs and
  leaves its file tree, and the result is judged as above.
\<close>

definition run_process_in :: "machine \<Rightarrow> string \<Rightarrow> path \<Rightarrow> bool \<Rightarrow> run_result stage" where
  "run_process_in m cmd dir verb w =
     (let w0 = (if verb then info (RunningCommand cmd) w else w)
      in case resolve m w0 dir of
           Inl e \<Rightarrow> (Inl e, w0)
         | Inr k \<Rightarrow>
             (case map_of (nodes w0) k of
                None \<Rightarrow> (Inl FileNotFoundError, w0)
              | Some (File b) \<Rightarrow> (Inl NotADirectoryError, w0)
              | Some Dir \<Rightarrow>
                  (let (p, fs) = spawn m cmd dir w0;
                       w1 = w0\<lparr>nodes := fs, trace := trace w0 @ [Spawn cmd]\<rparr>
                   in (run_process cmd verb False p, w1))))"

text \<open>\<^verbatim>\<open>str(x)\<close> of an executable.\<close>

fun exe_str :: "exe \<Rightarrow> string" where
  "exe_str (PathExe p) = path_str p"
| "exe_str (StrExe s) = s"

text \<open>\<^verbatim>\<open>" ".join(items)\<close> on strings.\<close>

fun join :: "string list \<Rightarrow> string" where
  "join [] = []"
| "join [s] = s"
| "join (s # t # ss) = s @ '' '' @ join (t # ss)"

text \<open>
  \<^verbatim>\<open>" ".join([x] + items)\<close> where \<open>x\<close> is an executable as it is held: a
  \<^verbatim>\<open>Path\<close> object among the items raises TypeError.
\<close>

fun join_exe :: "exe \<Rightarrow> string list \<Rightarrow> error + string" where
  "join_exe (PathExe p) items = Inl TypeError"
| "join_exe (StrExe s) items = Inr (join (s # items))"

definition compiled_pdf :: "latex2pdfa \<Rightarrow> path" where
  "compiled_pdf self = joinpath (parent_of (main_tex_file self)) (Path (compiled_pdf_filename self))"

definition output_document :: "latex2pdfa \<Rightarrow> path" where
  "output_document self = joinpath (output_dir self) (Path (output_filename self))"

definition pdflatex_command :: "machine \<Rightarrow> latex2pdfa \<Rightarrow> error + string" where
  "pdflatex_command m self =
     join_exe (pdflatex_cmd self)
       [''-no-shell-escape'', ''-interaction=nonstopmode'',
        path_str (absolute m (main_tex_file self)),
        (case pdflatex_extra_cmds self of Some x \<Rightarrow> x | None \<Rightarrow> [])]"

definition bibtex_command :: "latex2pdfa \<Rightarrow> error + string" where
  "bibtex_command self = join_exe (bibtex_cmd self) [stem_of (name_of (main_tex_file self))]"

definition generate_pdf :: "machine \<Rightarrow> latex2pdfa \<Rightarrow> unit stage" where
  "generate_pdf m self w =
     (case pdflatex_command m self of
        Inl e \<Rightarrow> (Inl e, w)
      | Inr pdflatex \<Rightarrow>
          (case bibtex_command self of
             Inl e \<Rightarrow> (Inl e, w)
           | Inr bibtex \<Rightarrow>
               (let dir = absolute m (parent_of (main_tex_file self))
                in and_then (run_process_in m pdflatex dir (verbose self)) (\<lambda>_.
                   and_then (run_process_in m bibtex dir (verbose self)) (\<lambda>_.
                   and_then (run_process_in m pdflatex dir (verbose self)) (\<lambda>_.
                   and_then (run_process_in m pdflatex dir (verbose self)) (\<lambda>_.
                   log_info CompiledSuccessfully)))) w)))"

definition gs_command :: "machine \<Rightarrow> latex2pdfa \<Rightarrow> string" where
  "gs_command m self =
     join [exe_str (gs_cmd self),
           ''-dPDFA='' @ str_int (conformance_level_version self), ''-dBATCH'', ''-dNOPAUSE'',
           ''-sProcessColorModel=DeviceRGB'', ''-dOverprint=/disable'',
           ''-sColorConversionStrategy=RGB'', ''-sDEVICE=pdfwrite'',
           ''-dPDFACompatibilityPolicy=1'',
           ''-sOutputFile='' @ path_str (absolute m (output_document self)),
           path_str (joinpath (absolute m (resources m)) (Path ''lib_PDFA_def.ps'')),
           path_str (absolute m (compiled_pdf self))]"

definition gs :: "machine \<Rightarrow> latex2pdfa \<Rightarrow> unit stage" where
  "gs m self =
     and_then (run_process_in m (gs_command m self) (Path ''.'') (verbose self)) (\<lambda>_.
     log_info NewPdfGenerated)"

definition dquote :: char where
  "dquote = CHR 0x22"

definition exiftool_command :: "latex2pdfa \<Rightarrow> string" where
  "exiftool_command self =
     join [exe_str (exiftool_cmd self), ''-TagsFromFile'', path_str (compiled_pdf self),
           dquote # ''-all:all>all:all'' @ [dquote],
           dquote # ''-xmp-dc:all>xmp-dc:all'' @ [dquote],
           dquote # ''-pdf:subject>pdf:subject'' @ [dquote],
           ''-overwrite_original'', path_str (output_document self)]"

definition fix_metadata :: "machine \<Rightarrow> latex2pdfa \<Rightarrow> unit stage" where
  "fix_metadata m self =
     and_then (run_process_in m (exiftool_command self) (Path ''.'') (verbose self)) (\<lambda>_.
     log_info MetadataFixed)"

definition qpdf_command :: "latex2pdfa \<Rightarrow> string" where
  "qpdf_command self =
     join [exe_str (qpdf_cmd self), ''--linearize'', ''--newline-before-endstream'',
           ''--replace-input'', path_str (output_document self)]"

definition linearize_pdf :: "machine \<Rightarrow> latex2pdfa \<Rightarrow> unit stage" where
  "linearize_pdf m self =
     and_then (run_process_in m (qpdf_command self) (Path ''.'') (verbose self)) (\<lambda>_.
     log_info PdfLinearized)"

text \<open>
  \<^verbatim>\<open>self.verapdf_cmd.absolute()\<close> needs a \<^verbatim>\<open>Path\<close>: on a \<^verbatim>\<open>str\<close>, and when the
  attribute was never set, it raises AttributeError.
\<close>

definition verapdf_command :: "machine \<Rightarrow> latex2pdfa \<Rightarrow> error + string" where
  "verapdf_command m self =
     (case verapdf_cmd self of
        Some (PathExe p) \<Rightarrow>
          Inr (join [path_str (absolute m p), path_str (absolute m (output_document self)),
                     ''-f '' @ str_int (conformance_level_version self)
                       @ conformance_level self])
      | _ \<Rightarrow> Inl AttributeError)"

definition verify_compliance :: "machine \<Rightarrow> latex2pdfa \<Rightarrow> bool stage" where
  "verify_compliance m self w =
     (case verapdf_command m self of
        Inl e \<Rightarrow> (Inl e, w)
      | Inr cmd \<Rightarrow>
          and_then (run_process_in m cmd (Path ''.'') False) (\<lambda>report w1.
            case report of
              Completed c \<Rightarrow> (Inl TypeError, w1)
            | Output xml \<Rightarrow>
                (case fromstring m xml of
                   Inl e \<Rightarrow> (Inl e, w1)
                 | Inr root \<Rightarrow>
                     (case verify_report root of
                        Inl e \<Rightarrow> (Inl e, w1)
                      | Inr (msg, compliant) \<Rightarrow> (Inr compliant, info msg w1)))) w)"

subsection \<open>latex2pdfa.py: the checks before the run, and add\_metadata\<close>

definition check_tex_file :: "machine \<Rightarrow> latex2pdfa \<Rightarrow> unit stage" where
  "check_tex_file m self w =
     (if \<not> is_file m w (main_tex_file self) then exit_with NotAFile 1 w
      else log_info TexFileOk w)"

fun check_executable :: "machine \<Rightarrow> exe \<Rightarrow> string \<Rightarrow> unit stage" where
  "check_executable m (PathExe p) nm w =
     (if \<not> is_file m w p then exit_with (ExecutableMissing nm) 1 w
      else (Inr (), w))"
| "check_executable m (StrExe s) nm w =
     (if \<not> which m s then exit_with (ExecutableMissing nm) 1 w else (Inr (), w))"

definition check_executables :: "machine \<Rightarrow> latex2pdfa \<Rightarrow> unit stage" where
  "check_executables m self =
     and_then (check_executable m (pdflatex_cmd self) ''pdflatex'') (\<lambda>_.
     and_then (check_executable m (bibtex_cmd self) ''bibtex'') (\<lambda>_.
     and_then (check_executable m (gs_cmd self) ''ghostscript'') (\<lambda>_.
     and_then (check_executable m (exiftool_cmd self) ''exiftool'') (\<lambda>_.
     and_then (check_executable m (qpdf_cmd self) ''qpdf'') (\<lambda>_.
     and_then (if verify self then
                 (case verapdf_cmd self of
                    None \<Rightarrow> (\<lambda>w. (Inl AttributeError, w))
                  | Some x \<Rightarrow> check_executable m x ''veraPDF'')
               else (\<lambda>w. (Inr (), w))) (\<lambda>_.
     log_info RequirementsOk))))))"

text \<open>\<^verbatim>\<open>s.endswith(t)\<close>.\<close>

definition endswith :: "string \<Rightarrow> string \<Rightarrow> bool" where
  "endswith s t = suffix t s"

text \<open>
  The method \<^verbatim>\<open>setup\<close>. It changes the output file name of the object; the object is
  its result.
\<close>

definition with_pdf_extension :: "latex2pdfa \<Rightarrow> latex2pdfa" where
  "with_pdf_extension self =
     (if \<not> endswith (output_filename self) ''.pdf''
      then self\<lparr>output_filename := output_filename self @ ''.pdf''\<rparr> else self)"

definition setup_stage :: "machine \<Rightarrow> latex2pdfa \<Rightarrow> latex2pdfa stage" where
  "setup_stage m self =
     and_then (check_tex_file m self) (\<lambda>_.
     and_then (check_executables m self) (\<lambda>_ w.
       (Inr (with_pdf_extension self), w)))"

text \<open>
  What \<^verbatim>\<open>Confirm.ask()\<close> and \<^verbatim>\<open>input()\<close> give: at the end of the input they raise
  EOFError.
\<close>

definition ask :: "bool option \<Rightarrow> bool stage" where
  "ask answer w = (case answer of None \<Rightarrow> (Inl EOFError, w) | Some b \<Rightarrow> (Inr b, w))"

text \<open>The statements of \<^verbatim>\<open>add_metadata\<close> under \<^verbatim>\<open>try\<close>.\<close>

definition add_metadata_try :: "machine \<Rightarrow> latex2pdfa \<Rightarrow> path \<Rightarrow> bool \<Rightarrow> unit stage" where
  "add_metadata_try m self xmpdata_file modify_xmpdata =
     and_then (if \<not> modify_xmpdata then
                 (\<lambda>w. case copy m (joinpath (resources m) (Path ''sample.xmpdata'')) xmpdata_file w of
                         (Some e, w1) \<Rightarrow> (Inl e, w1)
                       | (None, w1) \<Rightarrow> log_info MetadataAdded w1)
               else (\<lambda>w. (Inr (), w))) (\<lambda>_.
     and_then (log_info AskOpenEditor) (\<lambda>_.
     and_then (ask (confirm_open m)) (\<lambda>answer.
     and_then (log_info PressEnter) (\<lambda>_.
     and_then (if answer then
                 (\<lambda>w. case open_file m (absolute m xmpdata_file) of
                         Some e \<Rightarrow> (Inl e, w)
                       | None \<Rightarrow>
                           (Inr (), w\<lparr>trace := trace w @ [OpenFile (absolute m xmpdata_file)]\<rparr>))
               else (\<lambda>w. (Inr (), w))) (\<lambda>_ w.
       if press_enter m then (Inr (), w\<lparr>nodes := user_edits m (nodes w)\<rparr>)
       else (Inl EOFError, w))))))"

definition add_metadata :: "machine \<Rightarrow> latex2pdfa \<Rightarrow> unit stage" where
  "add_metadata m self =
     (let xmpdata_filename = stem_of (name_of (main_tex_file self)) @ ''.xmpdata'';
          xmpdata_file = joinpath (parent_of (main_tex_file self)) (Path xmpdata_filename)
      in and_then (\<lambda>w. if is_file m w xmpdata_file
                        then and_then (log_info XmpdataExists) (\<lambda>_. ask (confirm_modify m)) w
                        else (Inr False, w)) (\<lambda>modify_xmpdata w.
           if is_file m w xmpdata_file \<and> \<not> modify_xmpdata then (Inr (), w)
           else
             (case add_metadata_try m self xmpdata_file modify_xmpdata w of
                (Inl e, w1) \<Rightarrow>
                  if is_OSError e then exit_with CannotCopyMetadata 0 w1 else (Inl e, w1)
              | (Inr u, w1) \<Rightarrow> (Inr (), w1))))"

subsection \<open>latex2pdfa.py: run\<close>

definition skip :: "unit stage" where
  "skip w = (Inr (), w)"

definition run_pipeline :: "machine \<Rightarrow> latex2pdfa \<Rightarrow> unit stage" where
  "run_pipeline m self0 =
     and_then (setup_stage m self0) (\<lambda>self.
     and_then (if \<not> ignore_metadata self then add_metadata m self else skip) (\<lambda>_.
     and_then (patch_latex m self) (\<lambda>_.
     and_then (generate_pdf m self) (\<lambda>_.
     and_then (gs m self) (\<lambda>_.
     and_then (fix_metadata m self) (\<lambda>_.
     and_then (linearize_pdf m self) (\<lambda>_.
     and_then (if clean self then (\<lambda>w. (Inr (), clean_files m self w)) else skip) (\<lambda>_.
     and_then (if verify self
               then and_then (verify_compliance m self) (\<lambda>_. skip) else skip) (\<lambda>_.
     log_info Notes)))))))))"

subsection \<open>The steps of a run\<close>

text \<open>
  What a trace shows of the order of the stages: that the source was patched (either
  message of \<^verbatim>\<open>patch_latex\<close>), and each command line handed to the shell.
\<close>

datatype step = Patch | Command string

fun steps :: "event list \<Rightarrow> step list" where
  "steps [] = []"
| "steps (Log AlreadyPatched # es) = Patch # steps es"
| "steps (Log PatchedSuccessfully # es) = Patch # steps es"
| "steps (Spawn c # es) = Command c # steps es"
| "steps (e # es) = steps es"

definition stage_spec :: "'a stage \<Rightarrow> step list \<Rightarrow> ('a \<Rightarrow> bool) \<Rightarrow> bool" where
  "stage_spec f cs Q \<longleftrightarrow>
     (\<forall>w r w'. f w = (r, w') \<longrightarrow>
        (\<exists>ext. trace w' = trace w @ ext \<and> prefix (steps ext) cs
               \<and> (\<forall>x. r = Inr x \<longrightarrow> steps ext = cs \<and> Q x)))"

subsection \<open>The process runner in captured mode\<close>

lemma strip_prefix_Some_iff: "strip_prefix p s = Some t \<longleftrightarrow> s = p @ t"
  by (induction p s rule: strip_prefix.induct) auto

lemma strip_prefix_None_iff: "strip_prefix p s = None \<longleftrightarrow> \<not> prefix p s"
  by (induction p s rule: strip_prefix.induct) auto

lemma strip_prefix_append [simp]: "strip_prefix p (p @ t) = Some t"
  by (simp add: strip_prefix_Some_iff)

lemma fatal_match_iff:
  "fatal_match s = Some m \<longleftrightarrow>
     (\<exists>r. s = text_of ''Fatal error'' @ r \<and> takeWhile fatal_class r \<noteq> []
          \<and> m = text_of ''Fatal error'' @ takeWhile fatal_class r)"
  by (auto simp: fatal_match_def strip_prefix_Some_iff Let_def split: option.splits)

lemma fatal_match_None_iff:
  "fatal_match s = None \<longleftrightarrow>
     (\<forall>r. s = text_of ''Fatal error'' @ r \<longrightarrow> takeWhile fatal_class r = [])"
  by (auto simp: fatal_match_def strip_prefix_Some_iff Let_def split: option.splits)

text \<open>
  The search finds the first place where the literal is followed by a character of the
  class, and yields the literal with the longest run of the class after it.
\<close>

lemma fatal_search_first:
  assumes "s = a @ text_of ''Fatal error'' @ r" and "takeWhile fatal_class r \<noteq> []"
    and "\<forall>a' r'. s = a' @ text_of ''Fatal error'' @ r' \<and> takeWhile fatal_class r' \<noteq> []
           \<longrightarrow> length a \<le> length a'"
  shows "fatal_search s = Some (text_of ''Fatal error'' @ takeWhile fatal_class r)"
  using assms
proof (induction a arbitrary: s)
  case Nil
  then have "fatal_match s = Some (text_of ''Fatal error'' @ takeWhile fatal_class r)"
    by (simp add: fatal_match_iff)
  moreover from Nil have "s \<noteq> []" by (auto simp: text_of_def)
  ultimately show ?case by (cases s) simp_all
next
  case (Cons c a)
  let ?s' = "a @ text_of ''Fatal error'' @ r"
  have s: "s = c # ?s'" using Cons.prems(1) by simp
  have "fatal_match s = None"
  proof (rule ccontr)
    assume "fatal_match s \<noteq> None"
    then obtain r' where "s = [] @ text_of ''Fatal error'' @ r'"
      and "takeWhile fatal_class r' \<noteq> []"
      by (auto simp: fatal_match_iff)
    with Cons.prems(3) have "length (c # a) \<le> length ([] :: unicode)" by blast
    then show False by simp
  qed
  moreover have "fatal_search ?s' = Some (text_of ''Fatal error'' @ takeWhile fatal_class r)"
  proof (rule Cons.IH [OF refl Cons.prems(2)], intro allI impI)
    fix a' r'
    assume "?s' = a' @ text_of ''Fatal error'' @ r' \<and> takeWhile fatal_class r' \<noteq> []"
    then have "s = (c # a') @ text_of ''Fatal error'' @ r' \<and> takeWhile fatal_class r' \<noteq> []"
      using s by simp
    with Cons.prems(3) have "length (c # a) \<le> length (c # a')" by blast
    then show "length a \<le> length a'" by simp
  qed
  ultimately show ?case using s by simp
qed

lemma fatal_search_Some:
  "fatal_search s = Some m \<Longrightarrow>
     \<exists>a r. s = a @ text_of ''Fatal error'' @ r \<and> takeWhile fatal_class r \<noteq> []
          \<and> m = text_of ''Fatal error'' @ takeWhile fatal_class r
          \<and> (\<forall>a' r'. s = a' @ text_of ''Fatal error'' @ r' \<and> takeWhile fatal_class r' \<noteq> []
                \<longrightarrow> length a \<le> length a')"
proof (induction s)
  case Nil
  then show ?case by simp
next
  case (Cons c cs)
  show ?case
  proof (cases "fatal_match (c # cs)")
    case (Some m')
    with Cons.prems have "m' = m" by simp
    with Some obtain r where "c # cs = [] @ text_of ''Fatal error'' @ r"
      and "takeWhile fatal_class r \<noteq> []"
      and "m = text_of ''Fatal error'' @ takeWhile fatal_class r"
      by (auto simp: fatal_match_iff)
    then show ?thesis
      by (intro exI [of _ "[]"] exI [of _ r]) simp
  next
    case None
    with Cons.prems have "fatal_search cs = Some m" by simp
    from Cons.IH [OF this] obtain a r where
      cs: "cs = a @ text_of ''Fatal error'' @ r" and r: "takeWhile fatal_class r \<noteq> []"
      and m: "m = text_of ''Fatal error'' @ takeWhile fatal_class r"
      and first: "\<forall>a' r'. cs = a' @ text_of ''Fatal error'' @ r' \<and> takeWhile fatal_class r' \<noteq> []
                     \<longrightarrow> length a \<le> length a'"
      by blast
    have "length (c # a) \<le> length a'"
      if h: "c # cs = a' @ text_of ''Fatal error'' @ r' \<and> takeWhile fatal_class r' \<noteq> []"
      for a' r'
    proof (cases a')
      case Nil
      with h None show ?thesis by (simp add: fatal_match_None_iff)
    next
      case (Cons x a'')
      with h have "cs = a'' @ text_of ''Fatal error'' @ r' \<and> takeWhile fatal_class r' \<noteq> []"
        by simp
      with first have "length a \<le> length a''" by blast
      with Cons show ?thesis by simp
    qed
    then have "\<forall>a' r'. c # cs = a' @ text_of ''Fatal error'' @ r' \<and> takeWhile fatal_class r' \<noteq> []
                 \<longrightarrow> length (c # a) \<le> length a'"
      by blast
    moreover have "c # cs = (c # a) @ text_of ''Fatal error'' @ r"
      using cs by simp
    ultimately show ?thesis
      using r m by blast
  qed
qed

lemma fatal_search_None_iff:
  "fatal_search s = None \<longleftrightarrow>
     (\<forall>a c b. s = a @ text_of ''Fatal error'' @ c # b \<longrightarrow> \<not> fatal_class c)"
proof
  assume n: "fatal_search s = None"
  show "\<forall>a c b. s = a @ text_of ''Fatal error'' @ c # b \<longrightarrow> \<not> fatal_class c"
  proof (intro allI impI notI)
    fix a c b
    assume "s = a @ text_of ''Fatal error'' @ c # b" and "fatal_class c"
    then show False using n
    proof (induction a arbitrary: s)
      case Nil
      then have "fatal_match s \<noteq> None"
        by (auto simp: fatal_match_None_iff)
      with Nil show ?case by (cases s) (auto simp: text_of_def)
    next
      case (Cons x a)
      from Cons.prems(1,3) have "fatal_search (a @ text_of ''Fatal error'' @ c # b) = None"
        by (auto split: option.splits)
      from Cons.IH [OF refl Cons.prems(2) this] show ?case .
    qed
  qed
next
  assume h: "\<forall>a c b. s = a @ text_of ''Fatal error'' @ c # b \<longrightarrow> \<not> fatal_class c"
  show "fatal_search s = None"
  proof (rule ccontr)
    assume "fatal_search s \<noteq> None"
    then obtain m where "fatal_search s = Some m" by blast
    from fatal_search_Some [OF this] obtain a r where
      s: "s = a @ text_of ''Fatal error'' @ r" and r: "takeWhile fatal_class r \<noteq> []"
      by blast
    from r obtain c b where "r = c # b" and "fatal_class c"
      by (cases r) (auto split: if_splits)
    with s h show False by blast
  qed
qed

text \<open>
  C3, as the specification states it, fails: the captured stdout is decoded as UTF-8 before
  it is searched, so a stdout that holds the signature and a byte sequence that is not
  UTF-8 raises UnicodeDecodeError, which is not the process error.
\<close>

theorem run_process_fatal_counterexample:
  "run_process ''pdflatex thesis.tex'' False False
     \<lparr>exit_status = 1, out = CHR 0xFF # ''! ==> Fatal error occurred, no output'', err = []\<rparr>
     = Inl UnicodeDecodeError"
  by code_simp

text \<open>
  C3, amended. In captured mode, when the captured stdout is valid UTF-8 and its text holds
  the literal \<^verbatim>\<open>Fatal error\<close> followed by a character that is not white space, or is a
  newline or a space, the runner raises a CalledProcessError with the exit status and the
  command, whatever the exit status (zero included), stderr and the ignore flag are. Its
  message is the prefix \<^verbatim>\<open>pdflatex compilation error: \<close> and the excerpt: the first such
  occurrence of the literal in the text, with the longest run of such characters after it.
\<close>

theorem run_process_fatal:
  assumes "decode_utf8 (out p) = Some (a @ text_of ''Fatal error'' @ c # b)"
    and "fatal_class c"
  shows "\<exists>a' r'. a' @ text_of ''Fatal error'' @ r' = a @ text_of ''Fatal error'' @ c # b
           \<and> takeWhile fatal_class r' \<noteq> []
           \<and> (\<forall>a'' r''. a'' @ text_of ''Fatal error'' @ r'' = a @ text_of ''Fatal error'' @ c # b
                  \<and> takeWhile fatal_class r'' \<noteq> [] \<longrightarrow> length a' \<le> length a'')
           \<and> run_process cmd False ignore_errors p
               = Inl (CalledProcessError (exit_status p) cmd
                        (Some (Text (text_of ''pdflatex compilation error: ''
                                      @ text_of ''Fatal error'' @ takeWhile fatal_class r'))))"
proof -
  let ?s = "a @ text_of ''Fatal error'' @ c # b"
  have "fatal_search ?s \<noteq> None"
    using assms(2) by (auto simp: fatal_search_None_iff)
  then obtain m where m: "fatal_search ?s = Some m" by blast
  from fatal_search_Some [OF m] obtain a' r' where
    s: "?s = a' @ text_of ''Fatal error'' @ r'" and r: "takeWhile fatal_class r' \<noteq> []"
    and m': "m = text_of ''Fatal error'' @ takeWhile fatal_class r'"
    and first: "\<forall>a'' r''. ?s = a'' @ text_of ''Fatal error'' @ r'' \<and> takeWhile fatal_class r'' \<noteq> []
                     \<longrightarrow> length a' \<le> length a''"
    by blast
  have ne: "out p \<noteq> []"
    using assms(1) by (auto simp: decode_utf8_def)
  have res: "run_process cmd False ignore_errors p
          = Inl (CalledProcessError (exit_status p) cmd
                   (Some (Text (text_of ''pdflatex compilation error: '' @ m))))"
    using assms(1) m ne by (simp add: run_process_def run_def)
  show ?thesis
  proof (intro exI conjI)
    show "a' @ text_of ''Fatal error'' @ r' = ?s" using s by simp
    show "takeWhile fatal_class r' \<noteq> []" by (rule r)
    show "\<forall>a'' r''. a'' @ text_of ''Fatal error'' @ r'' = ?s
                  \<and> takeWhile fatal_class r'' \<noteq> [] \<longrightarrow> length a' \<le> length a''"
    proof (intro allI impI)
      fix a'' r''
      assume "a'' @ text_of ''Fatal error'' @ r'' = ?s \<and> takeWhile fatal_class r'' \<noteq> []"
      then have "?s = a'' @ text_of ''Fatal error'' @ r'' \<and> takeWhile fatal_class r'' \<noteq> []"
        by simp
      with first show "length a' \<le> length a''" by blast
    qed
    show "run_process cmd False ignore_errors p
               = Inl (CalledProcessError (exit_status p) cmd
                        (Some (Text (text_of ''pdflatex compilation error: ''
                                      @ text_of ''Fatal error'' @ takeWhile fatal_class r'))))"
      using res m' by simp
  qed
qed

theorem run_process_fatal_witness:
  "run_process ''pdflatex thesis.tex'' False True
     \<lparr>exit_status = 0,
      out = ''This is pdfTeX'' @ [CHR 0x0A] @ ''Fatal error'' @ [CHR 0x09] @ ''(tab)''
            @ [CHR 0x0A] @ ''! ==> Fatal error occurred,'' @ [CHR 0x0A] @ ''no output''
            @ [CHR 0x09] @ ''PDF file produced!'',
      err = []\<rparr>
     = Inl (CalledProcessError 0 ''pdflatex thesis.tex''
              (Some (Text (text_of (''pdflatex compilation error: Fatal error occurred,''
                                     @ [CHR 0x0A] @ ''no output'')))))"
proof -
  let ?p = "\<lparr>exit_status = 0,
      out = ''This is pdfTeX'' @ [CHR 0x0A] @ ''Fatal error'' @ [CHR 0x09] @ ''(tab)''
            @ [CHR 0x0A] @ ''! ==> Fatal error occurred,'' @ [CHR 0x0A] @ ''no output''
            @ [CHR 0x09] @ ''PDF file produced!'',
      err = []\<rparr>"
  let ?a = "text_of (''This is pdfTeX'' @ [CHR 0x0A] @ ''Fatal error'' @ [CHR 0x09] @ ''(tab)''
            @ [CHR 0x0A] @ ''! ==> '')"
  let ?b = "text_of (''occurred,'' @ [CHR 0x0A] @ ''no output'' @ [CHR 0x09]
            @ ''PDF file produced!'')"
  have d: "decode_utf8 (out ?p) = Some (?a @ text_of ''Fatal error'' @ 32 # ?b)"
    by code_simp
  have c: "fatal_class 32"
    by (simp add: fatal_class_def)
  from run_process_fatal [OF d c, of "''pdflatex thesis.tex''" True]
  obtain a' r' where
    eq: "a' @ text_of ''Fatal error'' @ r' = ?a @ text_of ''Fatal error'' @ 32 # ?b"
    and first: "\<forall>a'' r''. a'' @ text_of ''Fatal error'' @ r'' = ?a @ text_of ''Fatal error'' @ 32 # ?b
                  \<and> takeWhile fatal_class r'' \<noteq> [] \<longrightarrow> length a' \<le> length a''"
    and ne: "takeWhile fatal_class r' \<noteq> []"
    and res: "run_process ''pdflatex thesis.tex'' False True ?p
               = Inl (CalledProcessError (exit_status ?p) ''pdflatex thesis.tex''
                        (Some (Text (text_of ''pdflatex compilation error: ''
                                      @ text_of ''Fatal error'' @ takeWhile fatal_class r'))))"
    by blast
  have tw: "takeWhile fatal_class (32 # ?b) \<noteq> []"
    using c by simp
  from first tw have le: "length a' \<le> length ?a" by blast
  have len: "length ?a = 39" by (simp add: text_of_def)
  have "a' = ?a \<and> r' = 32 # ?b"
  proof -
    have "take (length a') (?a @ text_of ''Fatal error'' @ 32 # ?b) = a'"
      using eq [symmetric] by simp
    moreover have "drop (length a' + 11) (?a @ text_of ''Fatal error'' @ 32 # ?b) = r'"
      using eq [symmetric] by (simp add: text_of_def)
    moreover have "take 11 (drop (length a') (?a @ text_of ''Fatal error'' @ 32 # ?b))
                     = text_of ''Fatal error''"
      using eq [symmetric] by (simp add: text_of_def)
    moreover have "list_all (\<lambda>n.
        \<not> (take 11 (drop n (?a @ text_of ''Fatal error'' @ 32 # ?b)) = text_of ''Fatal error''
           \<and> takeWhile fatal_class (drop (n + 11) (?a @ text_of ''Fatal error'' @ 32 # ?b)) \<noteq> []))
        [0..<39]"
      by code_simp
    ultimately have "length a' = 39" using le len ne
      unfolding list_all_iff by (metis atLeastLessThan_iff le_neq_implies_less set_upt zero_le)
    with eq len show ?thesis by (metis append_eq_append_conv append_same_eq same_append_eq)
  qed
  then have "takeWhile fatal_class r' = text_of ('' occurred,'' @ [CHR 0x0A] @ ''no output'')"
    by (simp add: text_of_def fatal_class_def is_space_def newline_def)
  with res show ?thesis by (simp add: text_of_def)
qed

text \<open>
  C4, as the specification states it, fails: stderr is looked at only when the captured
  stdout is empty. A child that writes to both streams has its stdout returned, although
  stderr is not empty and errors are not ignored.
\<close>

theorem run_process_stderr_counterexample:
  "run_process ''bibtex thesis'' False False
     \<lparr>exit_status = 0, out = ''This is BibTeX'', err = ''I found no citation commands''\<rparr>
     = Inr (Output (text_of ''This is BibTeX''))"
  by code_simp

text \<open>
  C4, amended. In captured mode, when the text of the captured stdout does not hold the
  fatal-error signature: a non-empty stdout is returned as its decoded text, or raises
  UnicodeDecodeError when it is not valid UTF-8, whatever stderr holds; with an empty
  stdout, a non-empty stderr raises a CalledProcessError that carries the bytes of stderr
  unless errors are ignored, and otherwise the completed process is returned.
\<close>

theorem run_process_captured:
  assumes "\<forall>a c b. decode_utf8 (out p) = Some (a @ text_of ''Fatal error'' @ c # b)
             \<longrightarrow> \<not> fatal_class c"
  shows "run_process cmd False ignore_errors p =
           (if out p \<noteq> [] then
              (case decode_utf8 (out p) of
                 None \<Rightarrow> Inl UnicodeDecodeError
               | Some decoded \<Rightarrow> Inr (Output decoded))
            else if err p \<noteq> [] \<and> \<not> ignore_errors
              then Inl (CalledProcessError (exit_status p) cmd (Some (Bytes (err p))))
            else Inr (Completed \<lparr>args = cmd, returncode = exit_status p,
                                  stdout = Some [], stderr = Some (err p)\<rparr>))"
proof (cases "decode_utf8 (out p)")
  case None
  then show ?thesis by (simp add: run_process_def run_def)
next
  case (Some decoded)
  with assms have "fatal_search decoded = None"
    by (simp add: fatal_search_None_iff)
  with Some show ?thesis by (simp add: run_process_def run_def)
qed

theorem run_process_captured_witness:
  "run_process ''qpdf --linearize out.pdf'' False False
     \<lparr>exit_status = 0, out = [], err = ''qpdf: out.pdf: No such file''\<rparr>
     = Inl (CalledProcessError 0 ''qpdf --linearize out.pdf''
              (Some (Bytes ''qpdf: out.pdf: No such file'')))
   \<and> run_process ''qpdf --linearize out.pdf'' False True
     \<lparr>exit_status = 0, out = [], err = ''qpdf: out.pdf: No such file''\<rparr>
     = Inr (Completed \<lparr>args = ''qpdf --linearize out.pdf'', returncode = 0,
                        stdout = Some [], stderr = Some ''qpdf: out.pdf: No such file''\<rparr>)"
proof -
  let ?p = "\<lparr>exit_status = 0, out = [], err = ''qpdf: out.pdf: No such file''\<rparr>"
  have h: "\<forall>a c b. decode_utf8 (out ?p) = Some (a @ text_of ''Fatal error'' @ c # b)
             \<longrightarrow> \<not> fatal_class c"
    by (simp add: decode_utf8_def)
  from run_process_captured [OF h, of "''qpdf --linearize out.pdf''" False]
       run_process_captured [OF h, of "''qpdf --linearize out.pdf''" True]
  show ?thesis by simp
qed

text \<open>
  C10, as the specification states it, fails: a non-empty stdout is decoded as UTF-8, so a
  stdout without the signature that is not valid UTF-8 is not returned as success; the
  runner raises UnicodeDecodeError.
\<close>

theorem run_process_exit_status_counterexample:
  "run_process ''gs -dBATCH in.pdf'' False False
     \<lparr>exit_status = 0, out = ''Processing page '' @ [CHR 0xE9], err = []\<rparr>
     = Inl UnicodeDecodeError"
  by code_simp

text \<open>
  C10, amended. In captured mode the exit status of the child is never consulted. When the
  captured stdout is not empty, is valid UTF-8 and its text lacks the fatal-error
  signature, the decoded stdout is returned, whatever the exit status and stderr are; when
  stdout and stderr are both empty, the completed process is returned, whatever the exit
  status is; and in every case two children that differ in the exit status alone both fail
  or both succeed.
\<close>

theorem run_process_ignores_exit_status:
  "(out p \<noteq> [] \<and> decode_utf8 (out p) = Some decoded
      \<and> (\<forall>a c b. decoded = a @ text_of ''Fatal error'' @ c # b \<longrightarrow> \<not> fatal_class c)
      \<longrightarrow> run_process cmd False ignore_errors (p\<lparr>exit_status := rc, err := se\<rparr>)
            = Inr (Output decoded))
   \<and> (out p = [] \<and> err p = []
      \<longrightarrow> run_process cmd False ignore_errors (p\<lparr>exit_status := rc\<rparr>)
            = Inr (Completed \<lparr>args = cmd, returncode = rc, stdout = Some [], stderr = Some []\<rparr>))
   \<and> (isl (run_process cmd False ignore_errors (p\<lparr>exit_status := rc\<rparr>))
        = isl (run_process cmd False ignore_errors p))"
proof (intro conjI impI)
  assume h: "out p \<noteq> [] \<and> decode_utf8 (out p) = Some decoded
      \<and> (\<forall>a c b. decoded = a @ text_of ''Fatal error'' @ c # b \<longrightarrow> \<not> fatal_class c)"
  then have "fatal_search decoded = None"
    by (simp add: fatal_search_None_iff)
  with h show "run_process cmd False ignore_errors (p\<lparr>exit_status := rc, err := se\<rparr>)
            = Inr (Output decoded)"
    by (simp add: run_process_def run_def)
next
  assume "out p = [] \<and> err p = []"
  then show "run_process cmd False ignore_errors (p\<lparr>exit_status := rc\<rparr>)
            = Inr (Completed \<lparr>args = cmd, returncode = rc, stdout = Some [], stderr = Some []\<rparr>)"
    by (simp add: run_process_def run_def)
next
  show "isl (run_process cmd False ignore_errors (p\<lparr>exit_status := rc\<rparr>))
        = isl (run_process cmd False ignore_errors p)"
    by (simp add: run_process_def run_def split: option.splits)
qed

theorem run_process_ignores_exit_status_witness:
  "run_process ''exiftool -TagsFromFile a.pdf b.pdf'' False False
     \<lparr>exit_status = 2, out = ''Warning: no tags'' @ [CHR 0x0A] @ ''1 image files updated'',
      err = ''Error: File not found''\<rparr>
     = Inr (Output (text_of (''Warning: no tags'' @ [CHR 0x0A] @ ''1 image files updated'')))
   \<and> run_process ''exiftool -TagsFromFile a.pdf b.pdf'' False False
     \<lparr>exit_status = 2, out = [], err = []\<rparr>
     = Inr (Completed \<lparr>args = ''exiftool -TagsFromFile a.pdf b.pdf'', returncode = 2,
                        stdout = Some [], stderr = Some []\<rparr>)"
proof -
  let ?o = "''Warning: no tags'' @ [CHR 0x0A] @ ''1 image files updated''"
  let ?p = "\<lparr>exit_status = 0, out = ?o, err = []\<rparr>"
  let ?q = "\<lparr>exit_status = 0, out = [], err = []\<rparr> :: child"
  have d: "decode_utf8 (out ?p) = Some (text_of ?o)"
    by code_simp
  have "fatal_search (text_of ?o) = None"
    by code_simp
  then have n: "\<forall>a c b. text_of ?o = a @ text_of ''Fatal error'' @ c # b \<longrightarrow> \<not> fatal_class c"
    by (simp only: fatal_search_None_iff)
  from run_process_ignores_exit_status
         [where p = ?p and decoded = "text_of ?o" and ignore_errors = False and rc = 2
            and cmd = "''exiftool -TagsFromFile a.pdf b.pdf''" and se = "''Error: File not found''"]
       d n
  have 1: "run_process ''exiftool -TagsFromFile a.pdf b.pdf'' False False
             (?p\<lparr>exit_status := 2, err := ''Error: File not found''\<rparr>)
           = Inr (Output (text_of ?o))"
    by simp
  from run_process_ignores_exit_status
         [where p = ?q and ignore_errors = False and rc = 2
            and cmd = "''exiftool -TagsFromFile a.pdf b.pdf''"]
  have 2: "run_process ''exiftool -TagsFromFile a.pdf b.pdf'' False False
             (?q\<lparr>exit_status := 2\<rparr>)
           = Inr (Completed \<lparr>args = ''exiftool -TagsFromFile a.pdf b.pdf'', returncode = 2,
                              stdout = Some [], stderr = Some []\<rparr>)"
    by simp
  from 1 2 show ?thesis by simp
qed

subsection \<open>The report of the validator\<close>








end
